theory Spec2Isabelle
  imports Complex_Main
begin

section \<open>Data model\<close>

text \<open>
  The game is a browser client over a hosted relational database. Rows are records, a
  table is the list of its rows, JavaScript numbers are idealised as \<^typ>\<open>real\<close>
  (coordinates, random draws) or \<^typ>\<open>int\<close> (counters, health, points, score), and a
  value that may be \<^verbatim>\<open>null\<close>/\<^verbatim>\<open>undefined\<close> is an \<^typ>\<open>'a option\<close>.
  Field names carry a short prefix because several tables share column names.
\<close>

text \<open>The object built in the loop of \<^verbatim>\<open>generateTargets\<close> (no id: the database assigns it).\<close>

record new_target =
  nt_lobby_id :: string
  nt_position_x :: real
  nt_position_y :: real
  nt_color_intensity :: real
  nt_health :: int
  nt_points :: int
  nt_is_active :: bool

text \<open>A row of \<^verbatim>\<open>targets\<close>, which is also the client's \<^verbatim>\<open>Target\<close>.\<close>

record target =
  t_id :: string
  t_lobby_id :: string
  t_position_x :: real
  t_position_y :: real
  t_color_intensity :: real
  t_health :: int
  t_points :: int
  t_is_active :: bool

text \<open>A row of \<^verbatim>\<open>game_players\<close>, which is also the client's \<^verbatim>\<open>Player\<close>
  (the joined profile is only drawn and is left out).\<close>

record game_player =
  p_id :: string
  p_lobby_id :: string
  p_player_id :: string
  p_position_x :: real
  p_position_y :: real
  p_health :: int
  p_score :: int
  p_is_alive :: bool

text \<open>A row of \<^verbatim>\<open>lobbies\<close>; \<^verbatim>\<open>status\<close> is a nullable text column.\<close>

record lobby =
  l_id :: string
  l_code :: string
  l_name :: string
  l_max_players :: int
  l_current_players :: int
  l_status :: "string option"
  l_host_id :: string
  l_wave_number :: int

datatype gameStatus = playing | wave_complete | game_over

record GameState =
  players :: "game_player list"
  targets :: "target list"
  wave :: int
  gameStatus :: gameStatus

text \<open>The argument of \<^verbatim>\<open>useState<GameState>\<close>.\<close>

definition initial_GameState :: GameState where
  "initial_GameState = \<lparr>players = [], targets = [], wave = 1, gameStatus = playing\<rparr>"

section \<open>Requests and effects\<close>

text \<open>
  An \<^verbatim>\<open>update\<close> names the columns it sets; a patch has one optional field per
  column the client ever sets, \<^const>\<open>None\<close> meaning the column is not named.
\<close>

record target_patch =
  tp_health :: "int option"
  tp_is_active :: "bool option"

record player_patch =
  pp_position_x :: "real option"
  pp_position_y :: "real option"
  pp_health :: "int option"
  pp_score :: "int option"
  pp_is_alive :: "bool option"

record lobby_patch =
  lp_current_players :: "int option"
  lp_status :: "string option"


definition no_player_patch :: player_patch where
  "no_player_patch = \<lparr>pp_position_x = None, pp_position_y = None, pp_health = None,
     pp_score = None, pp_is_alive = None\<rparr>"

definition no_lobby_patch :: lobby_patch where
  "no_lobby_patch = \<lparr>lp_current_players = None, lp_status = None\<rparr>"

text \<open>The \<^verbatim>\<open>data\<close> object of a logged event in \<^verbatim>\<open>shoot\<close>.\<close>

record event_data =
  e_player_id :: "string option"
  e_target_id :: string
  e_damage :: int
  e_points_earned :: int

text \<open>
  The database calls the client makes, one constructor per shape of call, with the
  filters of the \<^verbatim>\<open>.eq\<close> chain as arguments. \<^verbatim>\<open>user?.id\<close> is a
  \<^typ>\<open>string option\<close>.
\<close>

datatype request =
    Targets_insert "new_target list"
  | Targets_update target_patch string
  | Targets_select_active string
  | Game_players_update player_patch string "string option"
  | Game_players_insert string "string option"
  | Game_players_delete string string
  | Game_players_select string
  | Game_players_select_single string "string option"
  | Lobbies_select_single_by_code string
  | Lobbies_select_waiting
  | Lobbies_insert string string string int
  | Lobbies_update lobby_patch string
  | Game_events_insert string string event_data

datatype timer_callback = NextWave

text \<open>
  Everything a handler does besides returning, in the order it does it: database
  calls, toasts (title, description, destructive variant), the two toasts whose title
  embeds a number, navigation, timers (delay in milliseconds), the console, and the
  setters of the lobby screen's component state.
\<close>

datatype effect =
    Request request
  | Toast string string bool
  | Toast_points int
  | Toast_wave int
  | Navigate string
  | SetTimeout nat timer_callback
  | Console_error
  | SetLobby lobby
  | SetPlayers "game_player list"
  | SetLoading bool

section \<open>Target generation\<close>

text \<open>
  \<^verbatim>\<open>Math.random()\<close> is a stream of draws: \<open>rnd k\<close> is the value of the \<open>k\<close>-th
  call. Each pass of the loop draws three times, in the order the source evaluates
  them: the colour intensity, then the two coordinates.
\<close>

function generateTargets_loop ::
  "string \<Rightarrow> (nat \<Rightarrow> real) \<Rightarrow> int \<Rightarrow> int \<Rightarrow> nat \<Rightarrow> new_target list \<Rightarrow> new_target list" where
  "generateTargets_loop lobbyId rnd targetsToGenerate i k newTargets =
     (if i < targetsToGenerate then
        (let colorIntensity = rnd k;
             points = \<lceil>(1 - colorIntensity) * 10\<rceil>;
             target = \<lparr>nt_lobby_id = lobbyId,
                       nt_position_x = rnd (k + 1) * 800,
                       nt_position_y = rnd (k + 2) * 600,
                       nt_color_intensity = colorIntensity,
                       nt_health = \<lceil>colorIntensity * 3\<rceil> + 1,
                       nt_points = points,
                       nt_is_active = True\<rparr>
         in generateTargets_loop lobbyId rnd targetsToGenerate (i + 1) (k + 3)
              (newTargets @ [target]))
      else newTargets)"
  by pat_completeness auto
termination
  by (relation "measure (\<lambda>(lobbyId, rnd, n, i, k, acc). nat (n - i))") auto

declare generateTargets_loop.simps [simp del]

text \<open>The list handed to \<^verbatim>\<open>insert\<close>.\<close>

definition newTargets_of :: "string \<Rightarrow> int \<Rightarrow> (nat \<Rightarrow> real) \<Rightarrow> new_target list" where
  "newTargets_of lobbyId w rnd = generateTargets_loop lobbyId rnd (min (5 + w) 15) 0 0 []"

text \<open>
  \<^verbatim>\<open>!lobbyId\<close> holds for \<^verbatim>\<open>undefined\<close> and for the empty string. The second
  argument is the wave number of the game state the closure holds.
\<close>

definition generateTargets :: "string option \<Rightarrow> int \<Rightarrow> (nat \<Rightarrow> real) \<Rightarrow> effect list" where
  "generateTargets lobbyId w rnd =
     (case lobbyId of
        None \<Rightarrow> []
      | Some lid \<Rightarrow>
          if lid = [] then []
          else [Request (Targets_insert (newTargets_of lid w rnd))])"

text \<open>
  The wave number only changes in \<^verbatim>\<open>nextWave\<close>, by one, from its initial value.
\<close>

inductive wave_number :: "int \<Rightarrow> bool" where
  wave_initial: "wave_number (wave initial_GameState)"
| wave_next: "wave_number w \<Longrightarrow> wave_number (w + 1)"


section \<open>The game screen\<close>

text \<open>The component state the handlers read and set.\<close>

record game_component =
  gameState :: GameState
  myPlayer :: "game_player option"

text \<open>
  \<^verbatim>\<open>fetchGameState\<close>: the two selects run together; \<open>playersData\<close> and
  \<open>targetsData\<close> are the \<^verbatim>\<open>data\<close> fields of their results (\<^const>\<open>None\<close> for
  \<^verbatim>\<open>null\<close>; an empty array is truthy). The state setters are applied in order.
\<close>

definition fetchGameState ::
  "string option \<Rightarrow> string option \<Rightarrow> game_player list option \<Rightarrow> target list option
     \<Rightarrow> game_component \<Rightarrow> game_component \<times> effect list" where
  "fetchGameState lobbyId user playersData targetsData st =
     (case lobbyId of
        None \<Rightarrow> (st, [])
      | Some lid \<Rightarrow>
          if lid = [] then (st, [])
          else
            (let st1 = (case playersData of
                          None \<Rightarrow> st
                        | Some ps \<Rightarrow>
                            (let s = st\<lparr>gameState := (gameState st)\<lparr>players := ps\<rparr>\<rparr>
                             in case find (\<lambda>p. Some (p_player_id p) = user) ps of
                                  None \<Rightarrow> s
                                | Some me \<Rightarrow> s\<lparr>myPlayer := Some me\<rparr>));
                 fetches = [Request (Game_players_select lid),
                            Request (Targets_select_active lid)]
             in case targetsData of
                  None \<Rightarrow> (st1, fetches)
                | Some ts \<Rightarrow>
                    (let st2 = st1\<lparr>gameState := (gameState st1)\<lparr>targets := ts\<rparr>\<rparr>
                     in if length ts = 0
                        then (st2\<lparr>gameState := (gameState st2)\<lparr>gameStatus := wave_complete\<rparr>\<rparr>,
                              fetches @ [SetTimeout 2000 NextWave])
                        else (st2, fetches))))"

text \<open>
  \<^verbatim>\<open>nextWave\<close>: the setter works on the state at the time it runs (\<open>st\<close>), while
  \<^verbatim>\<open>generateTargets\<close> and the toast read the wave number \<open>w\<close> of the closure.
\<close>

definition nextWave ::
  "string option \<Rightarrow> int \<Rightarrow> (nat \<Rightarrow> real) \<Rightarrow> game_component \<Rightarrow> game_component \<times> effect list" where
  "nextWave lobbyId w rnd st =
     (st\<lparr>gameState := (gameState st)\<lparr>wave := wave (gameState st) + 1, gameStatus := playing\<rparr>\<rparr>,
      generateTargets lobbyId w rnd @ [Toast_wave (w + 1)])"

text \<open>What a timer runs when it fires.\<close>

fun fire ::
  "timer_callback \<Rightarrow> string option \<Rightarrow> int \<Rightarrow> (nat \<Rightarrow> real) \<Rightarrow> game_component
     \<Rightarrow> game_component \<times> effect list" where
  "fire NextWave lobbyId w rnd st = nextWave lobbyId w rnd st"

text \<open>
  The position \<^verbatim>\<open>updatePlayerPosition\<close> computes from the held keys and the frame
  time, the four key tests in the source's order, then the clamp to the play field.
\<close>

definition new_position :: "game_player \<Rightarrow> string set \<Rightarrow> real \<Rightarrow> real \<times> real" where
  "new_position mp keys deltaTime =
     (let newX = p_position_x mp;
          newY = p_position_y mp;
          speed = 200;
          newY = (if ''w'' \<in> keys \<or> ''arrowup'' \<in> keys then newY - speed * deltaTime else newY);
          newY = (if ''s'' \<in> keys \<or> ''arrowdown'' \<in> keys then newY + speed * deltaTime else newY);
          newX = (if ''a'' \<in> keys \<or> ''arrowleft'' \<in> keys then newX - speed * deltaTime else newX);
          newX = (if ''d'' \<in> keys \<or> ''arrowright'' \<in> keys then newX + speed * deltaTime else newX);
          newX = max 20 (min 780 newX);
          newY = max 20 (min 580 newY)
      in (newX, newY))"

definition updatePlayerPosition ::
  "game_player option \<Rightarrow> string option \<Rightarrow> string option \<Rightarrow> string set \<Rightarrow> real \<Rightarrow> effect list" where
  "updatePlayerPosition myPl lobbyId user keys deltaTime =
     (case myPl of
        None \<Rightarrow> []
      | Some mp \<Rightarrow>
          (case lobbyId of
             None \<Rightarrow> []
           | Some lid \<Rightarrow>
               if lid = [] then []
               else
                 (case new_position mp keys deltaTime of
                    (newX, newY) \<Rightarrow>
                      if newX \<noteq> p_position_x mp \<or> newY \<noteq> p_position_y mp
                      then [Request (Game_players_update
                              (no_player_patch\<lparr>pp_position_x := Some newX,
                                               pp_position_y := Some newY\<rparr>) lid user)]
                      else [])))"




section \<open>What an update does to a table\<close>



definition apply_player_patch :: "player_patch \<Rightarrow> game_player \<Rightarrow> game_player" where
  "apply_player_patch patch r =
     r\<lparr>p_position_x := (case pp_position_x patch of None \<Rightarrow> p_position_x r | Some v \<Rightarrow> v),
       p_position_y := (case pp_position_y patch of None \<Rightarrow> p_position_y r | Some v \<Rightarrow> v),
       p_health := (case pp_health patch of None \<Rightarrow> p_health r | Some v \<Rightarrow> v),
       p_score := (case pp_score patch of None \<Rightarrow> p_score r | Some v \<Rightarrow> v),
       p_is_alive := (case pp_is_alive patch of None \<Rightarrow> p_is_alive r | Some v \<Rightarrow> v)\<rparr>"

definition game_players_update ::
  "string option \<Rightarrow> player_patch \<Rightarrow> string \<Rightarrow> string option \<Rightarrow> game_player list
     \<Rightarrow> game_player list" where
  "game_players_update auth patch lid uid rows =
     map (\<lambda>r. if p_lobby_id r = lid \<and> Some (p_player_id r) = uid \<and> Some (p_player_id r) = auth
               then apply_player_patch patch r else r) rows"

section \<open>Strings\<close>

text \<open>
  Lobby codes, route parameters and names are taken as ASCII text, one \<^typ>\<open>char\<close> per
  character. \<^verbatim>\<open>toUpperCase\<close> maps \<open>a\<close>..\<open>z\<close> to \<open>A\<close>..\<open>Z\<close> and keeps every other
  character; \<^verbatim>\<open>trim\<close> strips the ASCII white space at both ends;
  \<^verbatim>\<open>substring(start, end)\<close> clamps both indices to the length and swaps them when
  they are out of order.
\<close>

definition toUpperCase_char :: "char \<Rightarrow> char" where
  "toUpperCase_char c =
     (if (97::nat) \<le> of_char c \<and> of_char c \<le> (122::nat)
      then char_of (of_char c - (32::nat)) else c)"

definition toUpperCase :: "string \<Rightarrow> string" where
  "toUpperCase s = map toUpperCase_char s"

definition is_space :: "char \<Rightarrow> bool" where
  "is_space c \<longleftrightarrow> of_char c \<in> {32::nat, 9, 10, 11, 12, 13}"

definition trim :: "string \<Rightarrow> string" where
  "trim s = rev (dropWhile is_space (rev (dropWhile is_space s)))"

definition substring :: "nat \<Rightarrow> nat \<Rightarrow> string \<Rightarrow> string" where
  "substring start end s =
     (let a = min start (length s); b = min end (length s)
      in take (max a b - min a b) (drop (min a b) s))"

text \<open>Character classes used to state what a lobby code is made of.\<close>

definition is_digit :: "char \<Rightarrow> bool" where
  "is_digit c \<longleftrightarrow> (48::nat) \<le> of_char c \<and> of_char c \<le> (57::nat)"

definition is_upper :: "char \<Rightarrow> bool" where
  "is_upper c \<longleftrightarrow> (65::nat) \<le> of_char c \<and> of_char c \<le> (90::nat)"

definition is_lower :: "char \<Rightarrow> bool" where
  "is_lower c \<longleftrightarrow> (97::nat) \<le> of_char c \<and> of_char c \<le> (122::nat)"

text \<open>
  \<^verbatim>\<open>Math.random().toString(36)\<close> is produced by the JavaScript engine: for a number in
  \<open>[0, 1)\<close> it is \<open>0\<close> or \<open>0.\<close> followed by at least one digit of radix 36
  (\<open>0\<close>..\<open>9\<close>, \<open>a\<close>..\<open>z\<close>). How many digits there are is the engine's choice, so the
  printed string is the input and this is its shape.
\<close>

definition radix36_fraction :: "string \<Rightarrow> bool" where
  "radix36_fraction rs \<longleftrightarrow>
     rs = ''0''
     \<or> (take 2 rs = ''0.'' \<and> drop 2 rs \<noteq> []
         \<and> list_all (\<lambda>c. is_digit c \<or> is_lower c) (drop 2 rs))"

text \<open>Two characters that differ at most in letter case, and strings of such.\<close>

definition same_letter :: "char \<Rightarrow> char \<Rightarrow> bool" where
  "same_letter a b \<longleftrightarrow>
     a = b
     \<or> (is_upper a \<and> of_char b = of_char a + (32::nat))
     \<or> (is_upper b \<and> of_char a = of_char b + (32::nat))"

definition case_variant :: "string \<Rightarrow> string \<Rightarrow> bool" where
  "case_variant v c \<longleftrightarrow> list_all2 same_letter v c"

section \<open>The landing page\<close>


definition lobby_code :: "string \<Rightarrow> string" where
  "lobby_code rs = toUpperCase (substring 2 8 rs)"

text \<open>
  \<^verbatim>\<open>createLobby\<close>; \<open>rs\<close> is the value of \<^verbatim>\<open>Math.random().toString(36)\<close>, and
  \<open>data\<close>, \<open>error\<close> are the result of the insert.
\<close>

definition createLobby ::
  "string option \<Rightarrow> string \<Rightarrow> string \<Rightarrow> lobby option \<Rightarrow> string option \<Rightarrow> effect list" where
  "createLobby user lobbyName rs data error =
     (case user of
        None \<Rightarrow> []
      | Some uid \<Rightarrow>
          if trim lobbyName = [] then []
          else
            (let code = lobby_code rs
             in Request (Lobbies_insert code (trim lobbyName) uid 0) #
                (case error of
                   Some message \<Rightarrow> [Toast ''Failed to create lobby'' message True]
                 | None \<Rightarrow>
                     (case data of
                        Some d \<Rightarrow> [Toast ''Lobby created!'' (''Lobby code: '' @ code) False,
                                   Navigate (''/lobby/'' @ code)]
                      | None \<Rightarrow> []))))"

text \<open>The landing page's own \<^verbatim>\<open>joinLobby\<close> and \<^verbatim>\<open>joinLobbyByCode\<close>.\<close>

definition index_joinLobby :: "string \<Rightarrow> effect list" where
  "index_joinLobby code =
     (if trim code \<noteq> [] then [Navigate (''/lobby/'' @ toUpperCase code)] else [])"

definition joinLobbyByCode :: "string \<Rightarrow> effect list" where
  "joinLobbyByCode joinCode = (if trim joinCode \<noteq> [] then index_joinLobby joinCode else [])"

section \<open>The lobby screen\<close>

datatype 'a awaited = Resolved 'a | Rejected

text \<open>
  \<^verbatim>\<open>fetchPlayers\<close> reads the \<^verbatim>\<open>lobby\<close> of the component state. The flag tells
  whether it returned (\<^const>\<open>True\<close>) or threw.
\<close>

definition fetchPlayers ::
  "lobby option \<Rightarrow> (game_player list option \<times> string option) awaited \<Rightarrow> effect list \<times> bool" where
  "fetchPlayers lobby fetched =
     (case lobby of
        None \<Rightarrow> ([], True)
      | Some lb \<Rightarrow>
          (case fetched of
             Rejected \<Rightarrow> ([Request (Game_players_select (l_id lb))], False)
           | Resolved (data, error) \<Rightarrow>
               (Request (Game_players_select (l_id lb)) #
                  (case error of
                     Some message \<Rightarrow> []
                   | None \<Rightarrow> (case data of None \<Rightarrow> [] | Some ps \<Rightarrow> [SetPlayers ps])),
                True)))"

text \<open>The \<^verbatim>\<open>catch\<close> block of \<^verbatim>\<open>joinLobby\<close>.\<close>

definition join_catch :: "effect list" where
  "join_catch = [Console_error, Navigate ''/'']"

text \<open>The end of the \<^verbatim>\<open>try\<close> block: \<^verbatim>\<open>await fetchPlayers(); setLoading(false)\<close>.\<close>

definition join_finish ::
  "lobby option \<Rightarrow> (game_player list option \<times> string option) awaited \<Rightarrow> effect list" where
  "join_finish lobby fetched =
     (case fetchPlayers lobby fetched of
        (es, returned) \<Rightarrow> if returned then es @ [SetLoading False] else es @ join_catch)"

text \<open>
  \<^verbatim>\<open>joinLobby\<close> of the lobby screen. \<open>lookup\<close> is the result of the select by code,
  \<open>existing\<close> the \<^verbatim>\<open>data\<close> of the membership select, \<open>joined\<close> the \<^verbatim>\<open>error\<close> of
  the insert, \<open>counted\<close> the outcome of the count update, \<open>fetched\<close> the result inside
  \<^verbatim>\<open>fetchPlayers\<close>; \<open>lobby\<close> is the component state that \<^verbatim>\<open>fetchPlayers\<close> reads.
\<close>

definition joinLobby ::
  "string option \<Rightarrow> lobby option \<Rightarrow> string
     \<Rightarrow> (lobby option \<times> string option) awaited \<Rightarrow> game_player option awaited
     \<Rightarrow> string option awaited \<Rightarrow> unit awaited
     \<Rightarrow> (game_player list option \<times> string option) awaited \<Rightarrow> effect list" where
  "joinLobby user lobby lobbyCode lookup existing joined counted fetched =
     Request (Lobbies_select_single_by_code (toUpperCase lobbyCode)) #
     (case lookup of
        Rejected \<Rightarrow> join_catch
      | Resolved (lobbyData, lobbyError) \<Rightarrow>
          (case lobbyData of
             None \<Rightarrow> [Toast ''Lobby not found'' ''Please check the lobby code and try again.'' True,
                       Navigate ''/'']
           | Some ld \<Rightarrow>
               if lobbyError \<noteq> None
               then [Toast ''Lobby not found'' ''Please check the lobby code and try again.'' True,
                     Navigate ''/'']
               else
                 SetLobby ld #
                 Request (Game_players_select_single (l_id ld) user) #
                 (case existing of
                    Rejected \<Rightarrow> join_catch
                  | Resolved existingPlayer \<Rightarrow>
                      (case existingPlayer of
                         Some ep \<Rightarrow> join_finish lobby fetched
                       | None \<Rightarrow>
                           Request (Game_players_insert (l_id ld) user) #
                           (case joined of
                              Rejected \<Rightarrow> join_catch
                            | Resolved joinError \<Rightarrow>
                                (case joinError of
                                   Some message \<Rightarrow>
                                     [Toast ''Failed to join lobby'' message True,
                                      Navigate ''/'']
                                 | None \<Rightarrow>
                                     Request (Lobbies_update
                                       (no_lobby_patch\<lparr>lp_current_players :=
                                          Some (l_current_players ld + 1)\<rparr>) (l_id ld)) #
                                     (case counted of
                                        Rejected \<Rightarrow> join_catch
                                      | Resolved u \<Rightarrow> join_finish lobby fetched)))))))"


definition leaveLobby :: "lobby option \<Rightarrow> string option \<Rightarrow> effect list" where
  "leaveLobby lobby user =
     (case lobby of
        None \<Rightarrow> []
      | Some lb \<Rightarrow>
          (case user of
             None \<Rightarrow> []
           | Some uid \<Rightarrow>
               [Request (Game_players_delete (l_id lb) uid),
                Request (Lobbies_update
                  (no_lobby_patch\<lparr>lp_current_players :=
                     Some (max 0 (l_current_players lb - 1))\<rparr>) (l_id lb)),
                Navigate ''/'']))"

section \<open>The lobbies table\<close>

text \<open>
  The column check of \<^verbatim>\<open>status\<close>; as every SQL check it passes on \<^verbatim>\<open>NULL\<close>.
\<close>

definition status_check :: "string option \<Rightarrow> bool" where
  "status_check s =
     (case s of None \<Rightarrow> True | Some v \<Rightarrow> v \<in> {''waiting'', ''playing'', ''finished''})"


definition apply_lobby_patch :: "lobby_patch \<Rightarrow> lobby \<Rightarrow> lobby" where
  "apply_lobby_patch patch r =
     r\<lparr>l_current_players :=
         (case lp_current_players patch of None \<Rightarrow> l_current_players r | Some v \<Rightarrow> v),
       l_status := (case lp_status patch of None \<Rightarrow> l_status r | Some v \<Rightarrow> Some v)\<rparr>"

text \<open>
  An update by id: the update policy admits the rows whose host is the signed-in user;
  the statement fails as a whole when a row it changes would break the status check.
\<close>

definition lobbies_update ::
  "string option \<Rightarrow> lobby_patch \<Rightarrow> string \<Rightarrow> lobby list \<Rightarrow> lobby list" where
  "lobbies_update auth patch lid rows =
     (if \<forall>r \<in> set rows. l_id r = lid \<and> Some (l_host_id r) = auth
            \<longrightarrow> status_check (l_status (apply_lobby_patch patch r))
      then map (\<lambda>r. if l_id r = lid \<and> Some (l_host_id r) = auth
                     then apply_lobby_patch patch r else r) rows
      else rows)"


text \<open>The select of \<^verbatim>\<open>joinLobby\<close>: \<^verbatim>\<open>.eq('code', c).single()\<close> wants exactly one row.\<close>

definition lobbies_select_single :: "string \<Rightarrow> lobby list \<Rightarrow> lobby option \<times> string option" where
  "lobbies_select_single code rows =
     (case filter (\<lambda>r. l_code r = code) rows of
        [r] \<Rightarrow> (Some r, None)
      | _ \<Rightarrow> (None, Some ''JSON object requested, multiple (or no) rows returned''))"

section \<open>Every call of the client\<close>





section \<open>Properties of target generation\<close>

lemma wave_number_ge_1: "wave_number w \<Longrightarrow> 1 \<le> w"
  by (induction rule: wave_number.induct) (simp_all add: initial_GameState_def)

lemma generateTargets_loop_length:
  "length (generateTargets_loop lid rnd n i k acc) = length acc + nat (n - i)"
proof (induction lid rnd n i k acc rule: generateTargets_loop.induct)
  case (1 lid rnd n i k acc)
  show ?case
  proof (cases "i < n")
    case True
    then show ?thesis
      using "1.IH" [OF True refl refl refl]
      by (subst generateTargets_loop.simps) (simp add: Let_def)
  next
    case False
    then show ?thesis
      by (subst generateTargets_loop.simps) simp
  qed
qed




text \<open>
  C3. For every wave number the game can hold (it starts at 1 and \<^verbatim>\<open>nextWave\<close> adds
  one), \<^verbatim>\<open>generateTargets\<close> issues a single insert of exactly \<open>min (5 + w) 15\<close>
  targets: never more than 15 and at least 6. The lobby id is the route's parameter;
  every caller has checked that it is there.
\<close>

theorem generateTargets_inserts_min:
  assumes "wave_number w" and "lid \<noteq> []"
  shows "generateTargets (Some lid) w rnd = [Request (Targets_insert (newTargets_of lid w rnd))]
     \<and> int (length (newTargets_of lid w rnd)) = min (5 + w) 15
     \<and> 6 \<le> length (newTargets_of lid w rnd)
     \<and> length (newTargets_of lid w rnd) \<le> 15"
proof -
  have "1 \<le> w" using assms(1) by (rule wave_number_ge_1)
  then have "int (nat (min (5 + w) 15)) = min (5 + w) 15"
    and "6 \<le> nat (min (5 + w) 15)" and "nat (min (5 + w) 15) \<le> 15"
    by linarith+
  then show ?thesis
    using assms(2)
    by (simp add: generateTargets_def newTargets_of_def generateTargets_loop_length)
qed

theorem generateTargets_inserts_min_witness:
  "wave_number 2
   \<and> generateTargets (Some ''L'') 2 (\<lambda>k. 1 / 2)
       = [Request (Targets_insert (newTargets_of ''L'' 2 (\<lambda>k. 1 / 2)))]
   \<and> length (newTargets_of ''L'' 2 (\<lambda>k. 1 / 2)) = 7
   \<and> ''L'' \<noteq> []"
proof -
  have "wave_number (wave initial_GameState + 1)"
    by (intro wave_next wave_initial)
  then have w: "wave_number 2"
    by (simp add: initial_GameState_def)
  show ?thesis
    using w generateTargets_inserts_min [OF w, of "''L''" "\<lambda>k. 1 / 2"] by simp
qed



section \<open>Properties of the game screen\<close>




lemma new_position_bounds:
  "20 \<le> fst (new_position mp keys dt) \<and> fst (new_position mp keys dt) \<le> 780
   \<and> 20 \<le> snd (new_position mp keys dt) \<and> snd (new_position mp keys dt) \<le> 580"
  unfolding new_position_def Let_def fst_conv snd_conv
  by (simp split del: if_split)

lemma updatePlayerPosition_cases:
  assumes "e \<in> set (updatePlayerPosition myPl lobbyId user keys dt)"
  obtains mp lid where "myPl = Some mp" and "lobbyId = Some lid" and "lid \<noteq> []"
    and "fst (new_position mp keys dt) \<noteq> p_position_x mp
         \<or> snd (new_position mp keys dt) \<noteq> p_position_y mp"
    and "updatePlayerPosition myPl lobbyId user keys dt = [e]"
    and "e = Request (Game_players_update
           \<lparr>pp_position_x = Some (fst (new_position mp keys dt)),
            pp_position_y = Some (snd (new_position mp keys dt)),
            pp_health = None, pp_score = None, pp_is_alive = None\<rparr> lid user)"
proof (cases myPl)
  case None
  then show ?thesis using assms by (simp add: updatePlayerPosition_def)
next
  case (Some mp)
  note mp = this
  show ?thesis
  proof (cases lobbyId)
    case None
    then show ?thesis using assms mp by (simp add: updatePlayerPosition_def)
  next
    case (Some lid)
    obtain nx ny where np: "new_position mp keys dt = (nx, ny)"
      by (cases "new_position mp keys dt")
    from assms mp Some np have ne: "lid \<noteq> []"
      and moved: "nx \<noteq> p_position_x mp \<or> ny \<noteq> p_position_y mp"
      by (auto simp: updatePlayerPosition_def split: if_splits)
    from assms mp Some np ne moved
    have e: "e = Request (Game_players_update
           \<lparr>pp_position_x = Some nx, pp_position_y = Some ny,
            pp_health = None, pp_score = None, pp_is_alive = None\<rparr> lid user)"
      by (auto simp: updatePlayerPosition_def no_player_patch_def)
    have "updatePlayerPosition myPl lobbyId user keys dt = [e]"
      using mp Some np ne moved e
      by (auto simp: updatePlayerPosition_def no_player_patch_def)
    then show ?thesis
      using that [OF mp Some ne] moved e np by simp
  qed
qed

lemma game_players_update_length:
  "length (game_players_update auth patch lid uid rows) = length rows"
  by (simp add: game_players_update_def)

lemma game_players_update_nth:
  "i < length rows \<Longrightarrow>
   game_players_update auth patch lid uid rows ! i =
     (if p_lobby_id (rows ! i) = lid \<and> Some (p_player_id (rows ! i)) = uid
          \<and> Some (p_player_id (rows ! i)) = auth
      then apply_player_patch patch (rows ! i) else rows ! i)"
  by (simp add: game_players_update_def)

lemma position_patch_keeps:
  "apply_player_patch \<lparr>pp_position_x = Some x, pp_position_y = Some y,
      pp_health = None, pp_score = None, pp_is_alive = None\<rparr> r
   = r\<lparr>p_position_x := x, p_position_y := y\<rparr>"
  by (simp add: apply_player_patch_def)

text \<open>
  C9. Whatever the keys held, the frame time and the player's position before, a
  position that \<^verbatim>\<open>updatePlayerPosition\<close> writes has \<open>position_x\<close> in \<open>[20, 780]\<close> and
  \<open>position_y\<close> in \<open>[20, 580]\<close>.
\<close>

theorem updatePlayerPosition_clamped:
  assumes "Request (Game_players_update patch lid uid)
             \<in> set (updatePlayerPosition myPl lobbyId user keys deltaTime)"
  shows "\<exists>x y. pp_position_x patch = Some x \<and> pp_position_y patch = Some y
           \<and> 20 \<le> x \<and> x \<le> 780 \<and> 20 \<le> y \<and> y \<le> 580"
  using assms
proof (rule updatePlayerPosition_cases)
  fix mp l
  assume "Request (Game_players_update patch lid uid) = Request (Game_players_update
           \<lparr>pp_position_x = Some (fst (new_position mp keys deltaTime)),
            pp_position_y = Some (snd (new_position mp keys deltaTime)),
            pp_health = None, pp_score = None, pp_is_alive = None\<rparr> l user)"
  then have "pp_position_x patch = Some (fst (new_position mp keys deltaTime))"
    and "pp_position_y patch = Some (snd (new_position mp keys deltaTime))"
    by simp_all
  then show ?thesis
    using new_position_bounds [of mp keys deltaTime] by simp
qed

theorem updatePlayerPosition_clamped_witness:
  "Request (Game_players_update
      \<lparr>pp_position_x = Some 780, pp_position_y = Some 20,
       pp_health = None, pp_score = None, pp_is_alive = None\<rparr> ''L'' (Some ''u''))
     \<in> set (updatePlayerPosition
         (Some \<lparr>p_id = ''r'', p_lobby_id = ''L'', p_player_id = ''u'', p_position_x = 775,
                p_position_y = 30, p_health = 100, p_score = 0, p_is_alive = True\<rparr>)
         (Some ''L'') (Some ''u'') {''d'', ''w''} (1 / 2))
   \<and> (\<exists>x y. Some (780::real) = Some x \<and> Some (20::real) = Some y
          \<and> 20 \<le> x \<and> x \<le> 780 \<and> 20 \<le> y \<and> y \<le> 580)"
proof -
  have m: "Request (Game_players_update
      \<lparr>pp_position_x = Some 780, pp_position_y = Some 20,
       pp_health = None, pp_score = None, pp_is_alive = None\<rparr> ''L'' (Some ''u''))
     \<in> set (updatePlayerPosition
         (Some \<lparr>p_id = ''r'', p_lobby_id = ''L'', p_player_id = ''u'', p_position_x = 775,
                p_position_y = 30, p_health = 100, p_score = 0, p_is_alive = True\<rparr>)
         (Some ''L'') (Some ''u'') {''d'', ''w''} (1 / 2))"
    by (simp add: updatePlayerPosition_def new_position_def no_player_patch_def Let_def)
  show ?thesis
    using m updatePlayerPosition_clamped [OF m] by simp
qed

text \<open>
  C8. In a frame, \<^verbatim>\<open>updatePlayerPosition\<close> does nothing at all or makes one call: an
  update of \<^verbatim>\<open>game_players\<close>, made only when the computed position differs from the
  player's current one, naming only \<open>position_x\<close> and \<open>position_y\<close> and filtered to the
  lobby and the user's own \<open>player_id\<close>. Applied to any table, it keeps the number of
  rows, keeps every other column of every row (health, score, is_alive and the keys)
  and keeps every row of another player whole.
\<close>

theorem updatePlayerPosition_writes_own_position_only:
  assumes "e \<in> set (updatePlayerPosition myPl lobbyId user keys deltaTime)"
  shows "\<exists>mp lid x y.
           myPl = Some mp \<and> lobbyId = Some lid \<and> new_position mp keys deltaTime = (x, y)
           \<and> (x \<noteq> p_position_x mp \<or> y \<noteq> p_position_y mp)
           \<and> updatePlayerPosition myPl lobbyId user keys deltaTime = [e]
           \<and> e = Request (Game_players_update
                   \<lparr>pp_position_x = Some x, pp_position_y = Some y,
                    pp_health = None, pp_score = None, pp_is_alive = None\<rparr> lid user)
           \<and> (\<forall>auth rows.
                length (game_players_update auth
                   \<lparr>pp_position_x = Some x, pp_position_y = Some y,
                    pp_health = None, pp_score = None, pp_is_alive = None\<rparr> lid user rows)
                 = length rows
                \<and> (\<forall>i<length rows.
                     game_players_update auth
                       \<lparr>pp_position_x = Some x, pp_position_y = Some y,
                        pp_health = None, pp_score = None, pp_is_alive = None\<rparr> lid user rows ! i
                      = (if p_lobby_id (rows ! i) = lid \<and> Some (p_player_id (rows ! i)) = user
                            \<and> user = auth
                         then (rows ! i)\<lparr>p_position_x := x, p_position_y := y\<rparr>
                         else rows ! i)))"
  using assms
proof (rule updatePlayerPosition_cases)
  fix mp lid
  let ?x = "fst (new_position mp keys deltaTime)" and ?y = "snd (new_position mp keys deltaTime)"
  let ?patch = "\<lparr>pp_position_x = Some ?x, pp_position_y = Some ?y,
                    pp_health = None, pp_score = None, pp_is_alive = None\<rparr>"
  assume mp: "myPl = Some mp" and lid: "lobbyId = Some lid"
    and moved: "?x \<noteq> p_position_x mp \<or> ?y \<noteq> p_position_y mp"
    and one: "updatePlayerPosition myPl lobbyId user keys deltaTime = [e]"
    and e: "e = Request (Game_players_update ?patch lid user)"
  have rows: "\<forall>auth rows.
      length (game_players_update auth ?patch lid user rows) = length rows
      \<and> (\<forall>i<length rows.
           game_players_update auth ?patch lid user rows ! i
            = (if p_lobby_id (rows ! i) = lid \<and> Some (p_player_id (rows ! i)) = user
                  \<and> user = auth
               then (rows ! i)\<lparr>p_position_x := ?x, p_position_y := ?y\<rparr>
               else rows ! i))"
    by (auto simp: game_players_update_length game_players_update_nth position_patch_keeps)
  show ?thesis
    apply (rule exI [of _ mp], rule exI [of _ lid], rule exI [of _ ?x], rule exI [of _ ?y])
    using mp lid moved one e rows by simp
qed

theorem updatePlayerPosition_writes_own_position_only_witness:
  "updatePlayerPosition
     (Some \<lparr>p_id = ''r'', p_lobby_id = ''L'', p_player_id = ''u'', p_position_x = 100,
            p_position_y = 100, p_health = 100, p_score = 3, p_is_alive = True\<rparr>)
     (Some ''L'') (Some ''u'') {''s''} (1 / 10)
   = [Request (Game_players_update
       \<lparr>pp_position_x = Some 100, pp_position_y = Some 120,
        pp_health = None, pp_score = None, pp_is_alive = None\<rparr> ''L'' (Some ''u''))]
   \<and> updatePlayerPosition
     (Some \<lparr>p_id = ''r'', p_lobby_id = ''L'', p_player_id = ''u'', p_position_x = 100,
            p_position_y = 100, p_health = 100, p_score = 3, p_is_alive = True\<rparr>)
     (Some ''L'') (Some ''u'') {} (1 / 10) = []"
proof -
  let ?e = "Request (Game_players_update
       \<lparr>pp_position_x = Some 100, pp_position_y = Some 120,
        pp_health = None, pp_score = None, pp_is_alive = None\<rparr> ''L'' (Some ''u''))"
  let ?mp = "\<lparr>p_id = ''r'', p_lobby_id = ''L'', p_player_id = ''u'', p_position_x = 100,
            p_position_y = 100, p_health = 100, p_score = 3, p_is_alive = True\<rparr>"
  have m: "?e \<in> set (updatePlayerPosition (Some ?mp) (Some ''L'') (Some ''u'') {''s''} (1 / 10))"
    by (simp add: updatePlayerPosition_def new_position_def no_player_patch_def Let_def)
  have still: "updatePlayerPosition (Some ?mp) (Some ''L'') (Some ''u'') {} (1 / 10) = []"
    by (simp add: updatePlayerPosition_def new_position_def Let_def)
  from updatePlayerPosition_writes_own_position_only [OF m]
  have "updatePlayerPosition (Some ?mp) (Some ''L'') (Some ''u'') {''s''} (1 / 10) = [?e]"
    by blast
  then show ?thesis using still by simp
qed








lemma fetchGameState_empty:
  assumes "lid \<noteq> []"
  shows "gameStatus (gameState (fst (fetchGameState (Some lid) user playersData (Some []) st)))
           = wave_complete"
    and "snd (fetchGameState (Some lid) user playersData (Some []) st)
           = [Request (Game_players_select lid), Request (Targets_select_active lid),
              SetTimeout 2000 NextWave]"
  using assms by (simp_all add: fetchGameState_def Let_def)

lemma newTargets_of_length:
  "length (newTargets_of lid w rnd) = nat (min (5 + w) 15)"
  by (simp add: newTargets_of_def generateTargets_loop_length)

text \<open>
  C2. When a fetch for the lobby returns an empty list of active targets, the game
  status becomes \<open>wave_complete\<close> and one timer of 2000 ms is set whose callback is
  \<^verbatim>\<open>nextWave\<close>. When it fires, on whatever state the component then has, the wave
  number goes up by exactly 1, the status is \<open>playing\<close> again, and one insert of a
  non-empty batch of new targets is issued.
\<close>

theorem empty_fetch_completes_wave:
  assumes "lid \<noteq> []" and "wave_number w"
  shows "gameStatus (gameState (fst (fetchGameState (Some lid) user playersData (Some []) st)))
           = wave_complete
   \<and> snd (fetchGameState (Some lid) user playersData (Some []) st)
       = [Request (Game_players_select lid), Request (Targets_select_active lid),
          SetTimeout 2000 NextWave]
   \<and> wave (gameState (fst (fire NextWave (Some lid) w rnd s))) = wave (gameState s) + 1
   \<and> gameStatus (gameState (fst (fire NextWave (Some lid) w rnd s))) = playing
   \<and> snd (fire NextWave (Some lid) w rnd s)
       = [Request (Targets_insert (newTargets_of lid w rnd)), Toast_wave (w + 1)]
   \<and> newTargets_of lid w rnd \<noteq> []"
proof -
  have "1 \<le> w" using assms(2) by (rule wave_number_ge_1)
  then have "0 < nat (min (5 + w) 15)" by linarith
  then have "length (newTargets_of lid w rnd) \<noteq> 0"
    by (simp add: newTargets_of_length)
  then have batch: "newTargets_of lid w rnd \<noteq> []" by simp
  have next_wave: "wave (gameState (fst (fire NextWave (Some lid) w rnd s))) = wave (gameState s) + 1"
    "gameStatus (gameState (fst (fire NextWave (Some lid) w rnd s))) = playing"
    "snd (fire NextWave (Some lid) w rnd s)
       = [Request (Targets_insert (newTargets_of lid w rnd)), Toast_wave (w + 1)]"
    using assms(1) by (simp_all add: nextWave_def generateTargets_def)
  show ?thesis
    using fetchGameState_empty [OF assms(1)] next_wave batch by simp
qed

theorem empty_fetch_completes_wave_witness:
  "''L'' \<noteq> [] \<and> wave_number 1
   \<and> fetchGameState (Some ''L'') (Some ''u'') (Some []) (Some [])
        \<lparr>gameState = initial_GameState, myPlayer = None\<rparr>
      = (\<lparr>gameState = \<lparr>players = [], targets = [], wave = 1, gameStatus = wave_complete\<rparr>,
          myPlayer = None\<rparr>,
         [Request (Game_players_select ''L''), Request (Targets_select_active ''L''),
          SetTimeout 2000 NextWave])
   \<and> wave (gameState (fst (fire NextWave (Some ''L'') 1 (\<lambda>k. 1 / 2)
        \<lparr>gameState = \<lparr>players = [], targets = [], wave = 1, gameStatus = wave_complete\<rparr>,
         myPlayer = None\<rparr>))) = 2
   \<and> gameStatus (gameState (fst (fire NextWave (Some ''L'') 1 (\<lambda>k. 1 / 2)
        \<lparr>gameState = \<lparr>players = [], targets = [], wave = 1, gameStatus = wave_complete\<rparr>,
         myPlayer = None\<rparr>))) = playing"
proof -
  have l: "''L'' \<noteq> []" by simp
  have "wave_number (wave initial_GameState)" by (rule wave_initial)
  then have w: "wave_number 1" by (simp add: initial_GameState_def)
  have f: "fetchGameState (Some ''L'') (Some ''u'') (Some []) (Some [])
        \<lparr>gameState = initial_GameState, myPlayer = None\<rparr>
      = (\<lparr>gameState = \<lparr>players = [], targets = [], wave = 1, gameStatus = wave_complete\<rparr>,
          myPlayer = None\<rparr>,
         [Request (Game_players_select ''L''), Request (Targets_select_active ''L''),
          SetTimeout 2000 NextWave])"
    by (simp add: fetchGameState_def initial_GameState_def Let_def)
  show ?thesis
    using l w f empty_fetch_completes_wave [OF l w, of "Some ''u''" "Some []"
        "\<lparr>gameState = initial_GameState, myPlayer = None\<rparr>" "\<lambda>k. 1 / 2"
        "\<lparr>gameState = \<lparr>players = [], targets = [], wave = 1, gameStatus = wave_complete\<rparr>,
         myPlayer = None\<rparr>"]
    by simp
qed

section \<open>Properties of the lobby screen\<close>

lemma joinLobby_not_found:
  assumes "lobbyError \<noteq> None \<or> lobbyData = None"
  shows "joinLobby user lobby lobbyCode (Resolved (lobbyData, lobbyError))
           existing joined counted fetched
         = [Request (Lobbies_select_single_by_code (toUpperCase lobbyCode)),
            Toast ''Lobby not found'' ''Please check the lobby code and try again.'' True,
            Navigate ''/'']"
  using assms by (cases lobbyData) (auto simp: joinLobby_def)

lemma joinLobby_insert_failed:
  "joinLobby user lobby lobbyCode (Resolved (Some ld, None)) (Resolved None)
     (Resolved (Some message)) counted fetched
   = [Request (Lobbies_select_single_by_code (toUpperCase lobbyCode)),
      SetLobby ld,
      Request (Game_players_select_single (l_id ld) user),
      Request (Game_players_insert (l_id ld) user),
      Toast ''Failed to join lobby'' message True,
      Navigate ''/'']"
  by (simp add: joinLobby_def)

text \<open>
  C5. When the lookup by code comes back with an error or without a row,
  \<^verbatim>\<open>joinLobby\<close> does exactly this after the lookup: a destructive toast
  "Lobby not found" and a navigation to \<open>/\<close>; it issues no insert into
  \<^verbatim>\<open>game_players\<close> and no update of \<^verbatim>\<open>lobbies\<close>. When the lookup succeeds, the user
  is not yet a member and the insert comes back with an error, it shows a destructive
  toast with the error's message and navigates to \<open>/\<close>, again without an update of
  \<^verbatim>\<open>lobbies\<close>.
\<close>

theorem joinLobby_failure_toast_and_redirect:
  "(lobbyError \<noteq> None \<or> lobbyData = None \<longrightarrow>
      joinLobby user lobby lobbyCode (Resolved (lobbyData, lobbyError))
          existing joined counted fetched
        = [Request (Lobbies_select_single_by_code (toUpperCase lobbyCode)),
           Toast ''Lobby not found'' ''Please check the lobby code and try again.'' True,
           Navigate ''/'']
      \<and> (\<forall>l u. Request (Game_players_insert l u)
             \<notin> set (joinLobby user lobby lobbyCode (Resolved (lobbyData, lobbyError))
                      existing joined counted fetched))
      \<and> (\<forall>p l. Request (Lobbies_update p l)
             \<notin> set (joinLobby user lobby lobbyCode (Resolved (lobbyData, lobbyError))
                      existing joined counted fetched)))
   \<and> joinLobby user lobby lobbyCode (Resolved (Some ld, None)) (Resolved None)
        (Resolved (Some message)) counted fetched
      = [Request (Lobbies_select_single_by_code (toUpperCase lobbyCode)),
         SetLobby ld,
         Request (Game_players_select_single (l_id ld) user),
         Request (Game_players_insert (l_id ld) user),
         Toast ''Failed to join lobby'' message True,
         Navigate ''/'']
   \<and> (\<forall>p l. Request (Lobbies_update p l)
          \<notin> set (joinLobby user lobby lobbyCode (Resolved (Some ld, None)) (Resolved None)
                   (Resolved (Some message)) counted fetched))"
proof -
  have a: "lobbyError \<noteq> None \<or> lobbyData = None \<Longrightarrow>
      joinLobby user lobby lobbyCode (Resolved (lobbyData, lobbyError))
          existing joined counted fetched
        = [Request (Lobbies_select_single_by_code (toUpperCase lobbyCode)),
           Toast ''Lobby not found'' ''Please check the lobby code and try again.'' True,
           Navigate ''/'']"
    by (rule joinLobby_not_found)
  have b: "joinLobby user lobby lobbyCode (Resolved (Some ld, None)) (Resolved None)
        (Resolved (Some message)) counted fetched
      = [Request (Lobbies_select_single_by_code (toUpperCase lobbyCode)),
         SetLobby ld,
         Request (Game_players_select_single (l_id ld) user),
         Request (Game_players_insert (l_id ld) user),
         Toast ''Failed to join lobby'' message True,
         Navigate ''/'']"
    by (rule joinLobby_insert_failed)
  show ?thesis
    using a by (simp add: b) 
qed

theorem joinLobby_failure_toast_and_redirect_witness:
  "joinLobby (Some ''u'') None ''abc123'' (Resolved (None, Some ''no rows''))
     (Resolved None) (Resolved None) (Resolved ()) (Resolved (None, None))
   = [Request (Lobbies_select_single_by_code (toUpperCase ''abc123'')),
      Toast ''Lobby not found'' ''Please check the lobby code and try again.'' True,
      Navigate ''/'']"
proof -
  have "Some ''no rows'' \<noteq> None \<or> (None :: lobby option) = None" by simp
  then show ?thesis
    using joinLobby_failure_toast_and_redirect [of "Some ''no rows''" None "Some ''u''" None
        "''abc123''" "Resolved None" "Resolved None" "Resolved ()" "Resolved (None, None)"]
    by simp
qed

lemma leaveLobby_requests:
  "leaveLobby (Some lb) (Some uid)
   = [Request (Game_players_delete (l_id lb) uid),
      Request (Lobbies_update
        \<lparr>lp_current_players = Some (max 0 (l_current_players lb - 1)), lp_status = None\<rparr>
        (l_id lb)),
      Navigate ''/'']"
  by (simp add: leaveLobby_def no_lobby_patch_def)

lemma leaveLobby_count_written:
  assumes "Request (Lobbies_update patch lid) \<in> set (leaveLobby lobby user)"
  shows "\<exists>lb. lobby = Some lb \<and> lid = l_id lb
           \<and> patch = \<lparr>lp_current_players = Some (max 0 (l_current_players lb - 1)),
                       lp_status = None\<rparr>"
  using assms
  by (auto simp: leaveLobby_def no_lobby_patch_def split: option.splits)

lemma lobbies_update_count_nonneg:
  assumes "\<forall>r \<in> set rows. 0 \<le> l_current_players r" and "0 \<le> n"
  shows "\<forall>r \<in> set (lobbies_update auth \<lparr>lp_current_players = Some n, lp_status = None\<rparr> lid rows).
           0 \<le> l_current_players r"
  using assms by (auto simp: lobbies_update_def apply_lobby_patch_def)

text \<open>
  C10. For a lobby whose client-side count is \<open>n\<close>, \<^verbatim>\<open>leaveLobby\<close> (with a signed-in
  user) deletes the membership and writes \<open>current_players = max 0 (n - 1)\<close>, which is
  never negative and is 0 when \<open>n\<close> is 0; every count that \<^verbatim>\<open>leaveLobby\<close> writes has
  this form, and the update keeps a table of non-negative counts non-negative.
\<close>

theorem leaveLobby_count_never_negative:
  "leaveLobby (Some lb) (Some uid)
     = [Request (Game_players_delete (l_id lb) uid),
        Request (Lobbies_update
          \<lparr>lp_current_players = Some (max 0 (l_current_players lb - 1)), lp_status = None\<rparr>
          (l_id lb)),
        Navigate ''/'']
   \<and> 0 \<le> max 0 (l_current_players lb - 1)
   \<and> (l_current_players lb = 0 \<longrightarrow> max 0 (l_current_players lb - 1) = 0)
   \<and> (\<forall>patch lid. Request (Lobbies_update patch lid) \<in> set (leaveLobby lobby user) \<longrightarrow>
        (\<exists>l. lobby = Some l \<and> lid = l_id l
           \<and> lp_current_players patch = Some (max 0 (l_current_players l - 1))
           \<and> lp_status patch = None))
   \<and> ((\<forall>r \<in> set rows. 0 \<le> l_current_players r) \<longrightarrow>
        (\<forall>r \<in> set (lobbies_update auth
             \<lparr>lp_current_players = Some (max 0 (l_current_players lb - 1)), lp_status = None\<rparr>
             (l_id lb) rows). 0 \<le> l_current_players r))"
proof -
  have written: "\<forall>patch lid. Request (Lobbies_update patch lid) \<in> set (leaveLobby lobby user) \<longrightarrow>
        (\<exists>l. lobby = Some l \<and> lid = l_id l
           \<and> lp_current_players patch = Some (max 0 (l_current_players l - 1))
           \<and> lp_status patch = None)"
    using leaveLobby_count_written [of _ _ lobby user] by fastforce
  have kept: "(\<forall>r \<in> set rows. 0 \<le> l_current_players r) \<longrightarrow>
        (\<forall>r \<in> set (lobbies_update auth
             \<lparr>lp_current_players = Some (max 0 (l_current_players lb - 1)), lp_status = None\<rparr>
             (l_id lb) rows). 0 \<le> l_current_players r)"
    using lobbies_update_count_nonneg [of rows "max 0 (l_current_players lb - 1)" auth "l_id lb"]
    by simp
  have arith: "0 \<le> max 0 (l_current_players lb - 1)"
    "l_current_players lb = 0 \<longrightarrow> max 0 (l_current_players lb - 1) = 0"
    by auto
  show ?thesis
    using leaveLobby_requests [of lb uid] written kept arith by blast
qed

theorem leaveLobby_count_never_negative_witness:
  "leaveLobby
     (Some \<lparr>l_id = ''i'', l_code = ''ABC123'', l_name = ''room'', l_max_players = 4,
            l_current_players = 0, l_status = Some ''waiting'', l_host_id = ''h'',
            l_wave_number = 1\<rparr>) (Some ''u'')
   = [Request (Game_players_delete ''i'' ''u''),
      Request (Lobbies_update \<lparr>lp_current_players = Some 0, lp_status = None\<rparr> ''i''),
      Navigate ''/'']"
  using leaveLobby_count_never_negative [of
     "\<lparr>l_id = ''i'', l_code = ''ABC123'', l_name = ''room'', l_max_players = 4,
            l_current_players = 0, l_status = Some ''waiting'', l_host_id = ''h'',
            l_wave_number = 1\<rparr>" "''u''" None None "[]" None]
  by simp

section \<open>Properties of lobby codes\<close>

lemma toUpperCase_char_same_letter:
  "same_letter a b \<Longrightarrow> toUpperCase_char a = toUpperCase_char b"
  unfolding same_letter_def toUpperCase_char_def is_upper_def
  by auto

lemma toUpperCase_char_radix36:
  assumes "is_digit c \<or> is_lower c"
  shows "is_digit (toUpperCase_char c) \<or> is_upper (toUpperCase_char c)"
  using assms unfolding toUpperCase_char_def is_digit_def is_upper_def is_lower_def
  by auto

lemma toUpperCase_char_fixed:
  "is_digit c \<or> is_upper c \<Longrightarrow> toUpperCase_char c = c"
  by (auto simp: toUpperCase_char_def is_digit_def is_upper_def)

lemma toUpperCase_fixed:
  "\<forall>c \<in> set s. is_digit c \<or> is_upper c \<Longrightarrow> toUpperCase s = s"
  by (induction s) (simp_all add: toUpperCase_def toUpperCase_char_fixed)

lemma toUpperCase_case_variant:
  "case_variant v c \<Longrightarrow> toUpperCase v = toUpperCase c"
  unfolding case_variant_def toUpperCase_def
  by (induction v c rule: list_all2_induct) (simp_all add: toUpperCase_char_same_letter)

lemma substring_2_8: "substring 2 8 s = take 6 (drop 2 s)"
  by (auto simp: substring_def Let_def min_def max_def)

lemma lobby_code_length: "length (lobby_code rs) \<le> 6"
  by (simp add: lobby_code_def substring_2_8 toUpperCase_def)

lemma lobby_code_chars:
  assumes "radix36_fraction rs"
  shows "\<forall>c \<in> set (lobby_code rs). is_digit c \<or> is_upper c"
proof -
  have "\<forall>c \<in> set (drop 2 rs). is_digit c \<or> is_lower c"
    using assms by (auto simp: radix36_fraction_def list_all_iff)
  then have "\<forall>c \<in> set (take 6 (drop 2 rs)). is_digit c \<or> is_lower c"
    by (meson in_set_takeD)
  then show ?thesis
    by (auto simp: lobby_code_def substring_2_8 toUpperCase_def toUpperCase_char_radix36)
qed

lemma joinLobby_first:
  "\<exists>rest. joinLobby user lobby v lookup existing joined counted fetched
     = Request (Lobbies_select_single_by_code (toUpperCase v)) # rest"
  by (simp add: joinLobby_def)

lemma createLobby_first:
  "trim lobbyName \<noteq> [] \<Longrightarrow>
   \<exists>rest. createLobby (Some uid) lobbyName rs data error
     = Request (Lobbies_insert (lobby_code rs) (trim lobbyName) uid 0) # rest"
  by (simp add: createLobby_def Let_def)

text \<open>
  C7. For every string the engine can print for \<^verbatim>\<open>Math.random().toString(36)\<close>, the
  code \<^verbatim>\<open>createLobby\<close> inserts has at most 6 characters, each a digit or an upper-case
  letter. \<^verbatim>\<open>joinLobby\<close> looks the lobby up under the upper-cased entry, so an entry
  that differs from a code only in letter case gives the very lookup key of the code
  and the lookup returns the same result.
\<close>

theorem lobby_code_case_insensitive:
  assumes "radix36_fraction rs"
  shows "length (lobby_code rs) \<le> 6
   \<and> (\<forall>c \<in> set (lobby_code rs). is_digit c \<or> is_upper c)
   \<and> (trim lobbyName \<noteq> [] \<longrightarrow>
        (\<exists>rest. createLobby (Some uid) lobbyName rs data error
           = Request (Lobbies_insert (lobby_code rs) (trim lobbyName) uid 0) # rest))
   \<and> (\<exists>rest. joinLobby user lobby v lookup existing joined counted fetched
           = Request (Lobbies_select_single_by_code (toUpperCase v)) # rest)
   \<and> (case_variant v (lobby_code rs) \<longrightarrow>
        toUpperCase v = lobby_code rs
        \<and> lobbies_select_single (toUpperCase v) rows = lobbies_select_single (lobby_code rs) rows)"
proof -
  have chars: "\<forall>c \<in> set (lobby_code rs). is_digit c \<or> is_upper c"
    using assms by (rule lobby_code_chars)
  have "case_variant v (lobby_code rs) \<Longrightarrow> toUpperCase v = lobby_code rs"
    using toUpperCase_case_variant [of v "lobby_code rs"] toUpperCase_fixed [OF chars] by simp
  then show ?thesis
    using lobby_code_length [of rs] chars createLobby_first [of lobbyName uid rs data error]
      joinLobby_first [of user lobby v lookup existing joined counted fetched]
    by auto
qed

theorem lobby_code_case_insensitive_witness:
  "radix36_fraction ''0.4fzyo82mvyr''
   \<and> lobby_code ''0.4fzyo82mvyr'' = ''4FZYO8''
   \<and> case_variant ''4fZyo8'' ''4FZYO8''
   \<and> toUpperCase ''4fZyo8'' = ''4FZYO8''"
proof -
  have r: "radix36_fraction ''0.4fzyo82mvyr''" by code_simp
  have c: "lobby_code ''0.4fzyo82mvyr'' = ''4FZYO8''" by code_simp
  have v: "case_variant ''4fZyo8'' ''4FZYO8''" by code_simp
  show ?thesis
    using r c v lobby_code_case_insensitive [OF r, of _ _ _ _ _ _ "''4fZyo8''"]
    by simp
qed

section \<open>Properties of the lobbies table\<close>

























end
